theory Spec2Isabelle
  imports Complex_Main
begin

section \<open>JavaScript values\<close>

text \<open>
  A JavaScript number is NaN, an infinity or a finite double; every finite double is a
  rational. Rounding to 53 bits and the sign of zero are not modelled, so \<open>parseInt\<close>
  below is exact (as the program is up to \<open>2^53\<close>).
\<close>

datatype jsnum = NaN | NegInf | Fin rat | PosInf

text \<open>The relational operator \<open><\<close> on numbers: every comparison with NaN is false.\<close>

fun num_lt :: "jsnum \<Rightarrow> jsnum \<Rightarrow> bool" where
  "num_lt NaN b = False"
| "num_lt a NaN = False"
| "num_lt (Fin a) (Fin b) = (a < b)"
| "num_lt NegInf NegInf = False"
| "num_lt NegInf b = True"
| "num_lt a NegInf = False"
| "num_lt PosInf b = False"
| "num_lt a PosInf = True"

text \<open>
  A value stored in a document or in a rule set. An object (array, date, nested document,
  function) is represented by what the program can observe of it: whether \<open>typeof\<close>
  calls it a function, the string it converts to and the number it converts to.
\<close>

datatype jsval =
    JUndefined
  | JNull
  | JBool bool
  | JNum jsnum
  | JStr string
  | JObj bool string jsnum

fun typeof :: "jsval \<Rightarrow> string" where
  "typeof JUndefined = ''undefined''"
| "typeof JNull = ''object''"
| "typeof (JBool b) = ''boolean''"
| "typeof (JNum n) = ''number''"
| "typeof (JStr s) = ''string''"
| "typeof (JObj callable s n) = (if callable then ''function'' else ''object'')"

text \<open>Truthiness, as tested by \<open>if (x)\<close> and \<open>!x\<close>.\<close>

fun truthy :: "jsval \<Rightarrow> bool" where
  "truthy JUndefined = False"
| "truthy JNull = False"
| "truthy (JBool b) = b"
| "truthy (JNum n) = (n \<noteq> NaN \<and> n \<noteq> Fin 0)"
| "truthy (JStr s) = (s \<noteq> [])"
| "truthy (JObj callable s n) = True"

subsection \<open>Property reads on plain objects\<close>

text \<open>
  An object literal and a lean document are plain objects: reading \<open>o[key]\<close> gives the
  own property, else the member that \<open>Object.prototype\<close> has under that name, else
  \<open>undefined\<close>.
\<close>

type_synonym obj = "string \<rightharpoonup> jsval"

definition objectPrototypeProps :: "string list" where
  "objectPrototypeProps =
     [''constructor'', ''__defineGetter__'', ''__defineSetter__'', ''hasOwnProperty'',
      ''__lookupGetter__'', ''__lookupSetter__'', ''isPrototypeOf'', ''propertyIsEnumerable'',
      ''toString'', ''valueOf'', ''__proto__'', ''toLocaleString'']"

datatype 'a lookup = Own 'a | Inherited | Missing

definition lookupProp :: "(string \<rightharpoonup> 'a) \<Rightarrow> string \<Rightarrow> 'a lookup" where
  "lookupProp ob key =
     (case ob key of
        Some v \<Rightarrow> Own v
      | None \<Rightarrow> if key \<in> set objectPrototypeProps then Inherited else Missing)"

text \<open>
  The inherited members are functions, except \<open>__proto__\<close>, which reads as the prototype
  object itself.
\<close>

definition inheritedValue :: "string \<Rightarrow> jsval" where
  "inheritedValue key =
     (if key = ''__proto__'' then JObj False ''[object Object]'' NaN
      else JObj True (''function '' @ key @ ''() { [native code] }'') NaN)"

definition getProp :: "obj \<Rightarrow> string \<Rightarrow> jsval" where
  "getProp ob key =
     (case lookupProp ob key of
        Own v \<Rightarrow> v
      | Inherited \<Rightarrow> inheritedValue key
      | Missing \<Rightarrow> JUndefined)"

text \<open>
  An assignment \<open>o[key] = v\<close> creates or overwrites the own property. The one exception
  is \<open>__proto__\<close> on an object without such an own property: the assignment goes to the
  accessor inherited from \<open>Object.prototype\<close> and creates no property. (The program can
  only assign the inherited value itself there, which leaves the prototype as it is.)
\<close>

definition setProp :: "obj \<Rightarrow> string \<Rightarrow> jsval \<Rightarrow> obj" where
  "setProp ob key v = (if key = ''__proto__'' \<and> ob key = None then ob else ob(key \<mapsto> v))"

subsection \<open>parseInt(s, 10)\<close>

text \<open>
  Strings are sequences of 8-bit characters. \<open>parseInt\<close> skips leading white space, reads
  an optional sign and then the longest run of decimal digits; without a digit the result
  is NaN. Whatever follows the digits is ignored.
\<close>

definition isWhiteSpace :: "char \<Rightarrow> bool" where
  "isWhiteSpace c = (of_char c \<in> {9, 10, 11, 12, 13, 32, 160 :: nat})"

definition isDigit :: "char \<Rightarrow> bool" where
  "isDigit c = (48 \<le> (of_char c :: nat) \<and> (of_char c :: nat) \<le> 57)"

definition digitsValue :: "string \<Rightarrow> nat" where
  "digitsValue ds = foldl (\<lambda>acc c. acc * 10 + (of_char c - 48)) 0 ds"

definition parseInt :: "string \<Rightarrow> jsnum" where
  "parseInt s =
     (let t = dropWhile isWhiteSpace s;
          neg = (case t of [] \<Rightarrow> False | c # r \<Rightarrow> c = CHR ''-'');
          u = (case t of [] \<Rightarrow> [] | c # r \<Rightarrow> if c = CHR ''-'' \<or> c = CHR ''+'' then r else t);
          ds = takeWhile isDigit u
      in if ds = [] then NaN
         else Fin (of_int (if neg then - int (digitsValue ds) else int (digitsValue ds))))"

section \<open>The rule set (validationRules.js)\<close>

record ruleset =
  requiredFields :: "string list"
  fieldTypes :: "(string \<times> string) list"
  allowedValues :: "(string \<times> string list) list"
  valueRanges :: "(string \<times> jsnum \<times> jsnum) list"
  defaultValues :: obj
  customValidations :: "(string \<times> (jsval \<Rightarrow> bool)) list"

text \<open>
  The e-mail predicate tests \<open>/^[^\s@]+@[^\s@]+\.[^\s@]+$/\<close> against the string form of
  the value: a non-empty run without white space or \<open>@\<close>, one \<open>@\<close>, and a rest without
  white space or \<open>@\<close> that has a dot strictly inside it.
\<close>

definition emailChar :: "char \<Rightarrow> bool" where
  "emailChar c = (\<not> isWhiteSpace c \<and> c \<noteq> CHR ''@'')"

definition emailRegexTest :: "string \<Rightarrow> bool" where
  "emailRegexTest s =
     (takeWhile emailChar s \<noteq> [] \<and>
      (case dropWhile emailChar s of
         [] \<Rightarrow> False
       | c # t \<Rightarrow> c = CHR ''@'' \<and> list_all emailChar t \<and> CHR ''.'' \<in> set (butlast (tl t))))"

text \<open>
  The string forms of \<open>undefined\<close>, \<open>null\<close>, booleans and numbers contain no \<open>@\<close>, so the
  test fails on them.
\<close>

fun emailValidation :: "jsval \<Rightarrow> bool" where
  "emailValidation (JStr s) = emailRegexTest s"
| "emailValidation (JObj callable s n) = emailRegexTest s"
| "emailValidation v = False"

definition users :: ruleset where
  "users =
     \<lparr> requiredFields = [''name'', ''email''],
       fieldTypes = [(''name'', ''string''), (''email'', ''string''), (''age'', ''number''),
                     (''role'', ''string''), (''isActive'', ''boolean'')],
       allowedValues = [(''role'', [''user'', ''admin'', ''moderator''])],
       valueRanges = [(''age'', Fin 0, Fin 150)],
       defaultValues = [''email'' \<mapsto> JStr ''missing@example.com'', ''age'' \<mapsto> JNum (Fin 0),
                        ''role'' \<mapsto> JStr ''user'', ''isActive'' \<mapsto> JBool True],
       customValidations = [(''email'', emailValidation)] \<rparr>"

definition validationRules :: "string \<rightharpoonup> ruleset" where
  "validationRules = [''users'' \<mapsto> users]"

section \<open>Issues and validateDocument\<close>

text \<open>
  The description of an issue is kept as the template that was filled in and the values
  that went into it, not rendered to text.
\<close>

datatype description =
    DescMissing string
  | DescUnparsable string string string
  | DescType string string string
  | DescInvalidValue string jsval "string list"
  | DescOutOfRange string jsval jsnum jsnum
  | DescCustom string

record issue =
  field :: string
  issue :: string
  severity :: string
  description :: description

text \<open>
  An element of the array that \<open>validateDocument\<close> returns and \<open>repairDocument\<close> reads: an
  issue object or, when the collection has no rules, a bare string.
\<close>

datatype item = Issue issue | Message string

datatype error = TypeError | AlreadyInProgress | StorageError string

text \<open>
  In the range check the operand is \<open>typeof x === 'string' ? parseInt(x, 10) : x\<close>;
  \<open>rangeValue\<close> is that operand and \<open>rangeNumber\<close> the number that \<open><\<close> and \<open>>\<close> compare
  it as.
\<close>

fun rangeValue :: "jsval \<Rightarrow> jsval" where
  "rangeValue (JStr s) = JNum (parseInt s)"
| "rangeValue v = v"

fun rangeNumber :: "jsval \<Rightarrow> jsnum" where
  "rangeNumber (JStr s) = parseInt s"
| "rangeNumber (JNum n) = n"
| "rangeNumber JUndefined = NaN"
| "rangeNumber JNull = Fin 0"
| "rangeNumber (JBool b) = Fin (if b then 1 else 0)"
| "rangeNumber (JObj callable s n) = n"

text \<open>
  The five \<open>forEach\<close> callbacks of \<open>validateDocument\<close>, each giving the issues it pushes
  for one entry of the rule set, and the loops that run them in the order of the keys.
  In \<open>typeIssue\<close> the value is a string where \<open>rangeNumber\<close> is applied, so that it is
  \<open>parseInt(document[field], 10)\<close>.
\<close>

fun requiredIssue :: "obj \<Rightarrow> string \<Rightarrow> issue list" where
  "requiredIssue document f =
     (if getProp document f = JUndefined \<or> getProp document f = JNull
         \<or> getProp document f = JStr []
      then [\<lparr> field = f, issue = ''missing_required_field'', severity = ''high'',
              description = DescMissing f \<rparr>]
      else [])"

fun typeIssue :: "obj \<Rightarrow> string \<times> string \<Rightarrow> issue list" where
  "typeIssue document (f, expectedType) =
     (if getProp document f \<noteq> JUndefined then
        (let actualType = typeof (getProp document f) in
         if expectedType = ''number'' \<and> actualType = ''string'' then
           (if rangeNumber (getProp document f) = NaN
            then [\<lparr> field = f, issue = ''invalid_type'', severity = ''medium'',
                    description = DescUnparsable f expectedType actualType \<rparr>]
            else [])
         else if expectedType \<noteq> actualType
         then [\<lparr> field = f, issue = ''invalid_type'', severity = ''medium'',
                 description = DescType f expectedType actualType \<rparr>]
         else [])
      else [])"

text \<open>\<open>allowed.includes(x)\<close> on a list of strings holds only for a string in it.\<close>

fun arrayIncludes :: "string list \<Rightarrow> jsval \<Rightarrow> bool" where
  "arrayIncludes allowed (JStr s) = (s \<in> set allowed)"
| "arrayIncludes allowed v = False"

fun allowedIssue :: "obj \<Rightarrow> string \<times> string list \<Rightarrow> issue list" where
  "allowedIssue document (f, allowed) =
     (if getProp document f \<noteq> JUndefined \<and> \<not> arrayIncludes allowed (getProp document f)
      then [\<lparr> field = f, issue = ''invalid_value'', severity = ''high'',
              description = DescInvalidValue f (getProp document f) allowed \<rparr>]
      else [])"

fun rangeIssue :: "obj \<Rightarrow> string \<times> jsnum \<times> jsnum \<Rightarrow> issue list" where
  "rangeIssue document (f, lo, hi) =
     (if getProp document f \<noteq> JUndefined
         \<and> (num_lt (rangeNumber (getProp document f)) lo
              \<or> num_lt hi (rangeNumber (getProp document f)))
      then [\<lparr> field = f, issue = ''out_of_range'', severity = ''medium'',
              description = DescOutOfRange f (rangeValue (getProp document f)) lo hi \<rparr>]
      else [])"

fun customIssue :: "obj \<Rightarrow> string \<times> (jsval \<Rightarrow> bool) \<Rightarrow> issue list" where
  "customIssue document (f, isValid) =
     (if getProp document f \<noteq> JUndefined \<and> \<not> isValid (getProp document f)
      then [\<lparr> field = f, issue = ''custom_validation_failed'', severity = ''medium'',
              description = DescCustom f \<rparr>]
      else [])"

definition checkRequired :: "ruleset \<Rightarrow> obj \<Rightarrow> issue list" where
  "checkRequired rules document = concat (map (requiredIssue document) (requiredFields rules))"

definition checkTypes :: "ruleset \<Rightarrow> obj \<Rightarrow> issue list" where
  "checkTypes rules document = concat (map (typeIssue document) (fieldTypes rules))"

definition checkAllowed :: "ruleset \<Rightarrow> obj \<Rightarrow> issue list" where
  "checkAllowed rules document = concat (map (allowedIssue document) (allowedValues rules))"

definition checkRanges :: "ruleset \<Rightarrow> obj \<Rightarrow> issue list" where
  "checkRanges rules document = concat (map (rangeIssue document) (valueRanges rules))"

definition checkCustom :: "ruleset \<Rightarrow> obj \<Rightarrow> issue list" where
  "checkCustom rules document = concat (map (customIssue document) (customValidations rules))"

definition validateRules :: "ruleset \<Rightarrow> obj \<Rightarrow> issue list" where
  "validateRules rules document =
     checkRequired rules document @ checkTypes rules document @ checkAllowed rules document
       @ checkRanges rules document @ checkCustom rules document"

text \<open>
  \<open>validationRules[collection]\<close> is a property read: under an inherited name it is a
  truthy function or object, so the guard \<open>!rules\<close> does not fire and
  \<open>rules.requiredFields.forEach\<close> throws a TypeError.
\<close>

definition validateDocument :: "obj \<Rightarrow> string \<Rightarrow> error + item list" where
  "validateDocument document collection =
     (case lookupProp validationRules collection of
        Missing \<Rightarrow> Inr [Message (''No validation rules found for collection: '' @ collection)]
      | Inherited \<Rightarrow> Inl TypeError
      | Own rules \<Rightarrow> Inr (map Issue (validateRules rules document)))"

section \<open>repairDocument\<close>

record repair =
  rfield :: string
  action :: string
  oldValue :: jsval
  newValue :: jsval

record repairResult =
  document :: obj
  repairs :: "repair list"
  shouldDelete :: bool

text \<open>
  One pass of the \<open>forEach\<close> body on an issue object. The state is \<open>repairedDoc\<close> and
  \<open>repairs\<close>. \<open>rules\<close> is \<open>None\<close> when \<open>validationRules[collection]\<close> is not a rule set:
  then \<open>rules.defaultValues[field]\<close> and \<open>rules.valueRanges[field]\<close> throw a TypeError.
\<close>

definition repairIssue ::
  "ruleset option \<Rightarrow> obj \<Rightarrow> obj \<times> repair list \<Rightarrow> issue \<Rightarrow> error + obj \<times> repair list" where
  "repairIssue rules doc st i =
     (let repairedDoc = fst st; reps = snd st; f = field i in
      if issue i = ''missing_required_field'' then
        (case rules of
           None \<Rightarrow> Inl TypeError
         | Some r \<Rightarrow>
             if truthy (getProp (defaultValues r) f)
             then Inr (setProp repairedDoc f (getProp (defaultValues r) f),
                       reps @ [\<lparr> rfield = f, action = ''set_default'', oldValue = JUndefined,
                                 newValue = getProp (defaultValues r) f \<rparr>])
             else Inr st)
      else if issue i = ''invalid_type'' then
        (if f = ''age'' then
           (case getProp repairedDoc f of
              JStr s \<Rightarrow>
                if parseInt s \<noteq> NaN
                then Inr (setProp repairedDoc f (JNum (parseInt s)),
                          reps @ [\<lparr> rfield = f, action = ''type_conversion'', oldValue = JStr s,
                                    newValue = JNum (parseInt s) \<rparr>])
                else Inr st
            | _ \<Rightarrow> Inr st)
         else Inr st)
      else if issue i = ''invalid_value'' then
        (if f = ''role'' then
           (case rules of
              None \<Rightarrow> Inl TypeError
            | Some r \<Rightarrow>
                Inr (setProp repairedDoc f (getProp (defaultValues r) f),
                     reps @ [\<lparr> rfield = f, action = ''set_default'', oldValue = getProp doc f,
                               newValue = getProp (defaultValues r) f \<rparr>]))
         else Inr st)
      else if issue i = ''out_of_range'' then
        (if f = ''age'' then
           (case rules of
              None \<Rightarrow> Inl TypeError
            | Some r \<Rightarrow>
                (case map_of (valueRanges r) f of
                   None \<Rightarrow> Inl TypeError
                 | Some (lo, hi) \<Rightarrow>
                     if num_lt (rangeNumber (getProp repairedDoc f)) lo
                     then Inr (setProp repairedDoc f (JNum lo),
                               reps @ [\<lparr> rfield = f, action = ''clamp_to_min'',
                                         oldValue = rangeValue (getProp repairedDoc f),
                                         newValue = JNum lo \<rparr>])
                     else if num_lt hi (rangeNumber (getProp repairedDoc f))
                     then Inr (setProp repairedDoc f (JNum hi),
                               reps @ [\<lparr> rfield = f, action = ''clamp_to_max'',
                                         oldValue = rangeValue (getProp repairedDoc f),
                                         newValue = JNum hi \<rparr>])
                     else Inr st))
         else Inr st)
      else Inr st)"

text \<open>Destructuring a bare string gives \<open>undefined\<close> for both names: no case matches.\<close>

fun repairItem ::
  "ruleset option \<Rightarrow> obj \<Rightarrow> obj \<times> repair list \<Rightarrow> item \<Rightarrow> error + obj \<times> repair list" where
  "repairItem rules doc st (Message s) = Inr st"
| "repairItem rules doc st (Issue i) = repairIssue rules doc st i"

fun repairLoop ::
  "ruleset option \<Rightarrow> obj \<Rightarrow> obj \<times> repair list \<Rightarrow> item list \<Rightarrow> error + obj \<times> repair list" where
  "repairLoop rules doc st [] = Inr st"
| "repairLoop rules doc st (x # xs) =
     (case repairItem rules doc st x of
        Inl e \<Rightarrow> Inl e
      | Inr st' \<Rightarrow> repairLoop rules doc st' xs)"

text \<open>The predicate of \<open>issues.some(...)\<close>, with the short circuit of \<open>&&\<close>.\<close>

fun irreparable :: "ruleset option \<Rightarrow> item \<Rightarrow> error + bool" where
  "irreparable rules (Message s) = Inr False"
| "irreparable rules (Issue i) =
     (if severity i = ''high'' \<and> issue i = ''invalid_value'' then
        (case rules of
           None \<Rightarrow> Inl TypeError
         | Some r \<Rightarrow> Inr (\<not> truthy (getProp (defaultValues r) (field i))))
      else Inr False)"

fun someIrreparable :: "ruleset option \<Rightarrow> item list \<Rightarrow> error + bool" where
  "someIrreparable rules [] = Inr False"
| "someIrreparable rules (x # xs) =
     (case irreparable rules x of
        Inl e \<Rightarrow> Inl e
      | Inr b \<Rightarrow> if b then Inr True else someIrreparable rules xs)"

definition rulesFor :: "string \<Rightarrow> ruleset option" where
  "rulesFor collection =
     (case lookupProp validationRules collection of Own r \<Rightarrow> Some r | _ \<Rightarrow> None)"

definition repairDocument :: "obj \<Rightarrow> item list \<Rightarrow> string \<Rightarrow> error + repairResult" where
  "repairDocument doc issues collection =
     (case repairLoop (rulesFor collection) doc (doc, []) issues of
        Inl e \<Rightarrow> Inl e
      | Inr st \<Rightarrow>
          (case someIrreparable (rulesFor collection) issues of
             Inl e \<Rightarrow> Inl e
           | Inr b \<Rightarrow> Inr \<lparr> document = fst st, repairs = snd st, shouldDelete = b \<rparr>))"

section \<open>The consistency checker\<close>

datatype reportError = DocumentError string error | CheckFailed error

datatype detail =
    DeletedDetail string "description option list"
  | RepairedDetail string repair
  | UnrepairedDetail string "description option list"

record report =
  timestamp :: int
  collection :: string
  totalDocuments :: nat
  inconsistenciesFound :: nat
  repairsApplied :: nat
  documentsDeleted :: nat
  errors :: "reportError list"
  details :: "detail list"
  duration :: int

record status =
  statusCollection :: string
  isConsistent :: bool
  lastCheckTime :: int
  lastConsistentTime :: "int option"
  allReplicasConsistent :: bool
  lastReportId :: "string option"

text \<open>
  The object that \<open>updateConsistencyStatus\<close> hands to \<open>Status.findOneAndUpdate\<close>. The
  report it is given is the plain object built by \<open>checkCollection\<close>, which has no \<open>_id\<close>.
\<close>

definition statusUpdate :: "string \<Rightarrow> report \<Rightarrow> int \<Rightarrow> status" where
  "statusUpdate collectionName rep now =
     (let consistent = (inconsistenciesFound rep = 0
            \<or> inconsistenciesFound rep = repairsApplied rep + documentsDeleted rep)
      in \<lparr> statusCollection = collectionName,
           isConsistent = consistent,
           lastCheckTime = now,
           lastConsistentTime = (if consistent then Some now else None),
           allReplicasConsistent = consistent,
           lastReportId = None \<rparr>)"

text \<open>
  The storage that the checker talks to (the Mongoose models), over a state of the
  database. Every call may fail. \<open>find\<close> is \<open>Model.find({}).lean()\<close>, giving each document
  with its \<open>_id\<close>; \<open>findOneAndUpdate\<close> is the upsert of the Status model.
\<close>

record 's storage =
  find :: "'s \<Rightarrow> error + (string \<times> obj) list"
  findByIdAndDelete :: "string \<Rightarrow> 's \<Rightarrow> error option \<times> 's"
  findByIdAndUpdate :: "string \<Rightarrow> obj \<Rightarrow> 's \<Rightarrow> error option \<times> 's"
  findOneAndUpdate :: "string \<Rightarrow> status \<Rightarrow> 's \<Rightarrow> error option \<times> 's"

record checker =
  isRunning :: bool
  currentCheck :: "string option"

fun itemDescription :: "item \<Rightarrow> description option" where
  "itemDescription (Issue i) = Some (description i)"
| "itemDescription (Message s) = None"

text \<open>\<open>updateConsistencyStatus\<close> catches the failure of the upsert and only logs it.\<close>

definition updateConsistencyStatus :: "'s storage \<Rightarrow> string \<Rightarrow> report \<Rightarrow> int \<Rightarrow> 's \<Rightarrow> 's" where
  "updateConsistencyStatus M collectionName rep now db =
     snd (findOneAndUpdate M collectionName (statusUpdate collectionName rep now) db)"

text \<open>
  The body of the \<open>for\<close> loop with its \<open>try\<close>/\<open>catch\<close>: whatever a document throws becomes
  an entry of \<open>report.errors\<close>, after the counters that were already updated.
\<close>

definition processDocument ::
  "'s storage \<Rightarrow> string \<Rightarrow> report \<times> 's \<Rightarrow> string \<times> obj \<Rightarrow> report \<times> 's" where
  "processDocument M collectionName st d =
     (let rep = fst st; db = snd st; docId = fst d; doc = snd d in
      case validateDocument doc collectionName of
        Inl e \<Rightarrow> (rep\<lparr>errors := errors rep @ [DocumentError docId e]\<rparr>, db)
      | Inr issues \<Rightarrow>
          if length issues > 0 then
            (let rep1 = rep\<lparr>inconsistenciesFound := inconsistenciesFound rep + length issues\<rparr> in
             case repairDocument doc issues collectionName of
               Inl e \<Rightarrow> (rep1\<lparr>errors := errors rep1 @ [DocumentError docId e]\<rparr>, db)
             | Inr res \<Rightarrow>
                 if shouldDelete res then
                   (case findByIdAndDelete M docId db of
                      (Some e, db') \<Rightarrow>
                        (rep1\<lparr>errors := errors rep1 @ [DocumentError docId e]\<rparr>, db')
                    | (None, db') \<Rightarrow>
                        (rep1\<lparr>documentsDeleted := documentsDeleted rep1 + 1,
                              details := details rep1
                                @ [DeletedDetail docId (map itemDescription issues)]\<rparr>, db'))
                 else if length (repairs res) > 0 then
                   (case findByIdAndUpdate M docId (document res) db of
                      (Some e, db') \<Rightarrow>
                        (rep1\<lparr>errors := errors rep1 @ [DocumentError docId e]\<rparr>, db')
                    | (None, db') \<Rightarrow>
                        (rep1\<lparr>repairsApplied := repairsApplied rep1 + length (repairs res),
                              details := details rep1
                                @ map (RepairedDetail docId) (repairs res)\<rparr>, db'))
                 else
                   (rep1\<lparr>details := details rep1
                           @ [UnrepairedDetail docId (map itemDescription issues)]\<rparr>, db))
          else (rep, db))"

text \<open>The \<open>try\<close> block of \<open>checkCollection\<close> with its \<open>catch\<close>, on the fresh report.\<close>

definition scan :: "'s storage \<Rightarrow> string \<Rightarrow> int \<Rightarrow> report \<Rightarrow> 's \<Rightarrow> report \<times> 's" where
  "scan M collectionName statusTime rep db =
     (case find M db of
        Inl e \<Rightarrow> (rep\<lparr>errors := errors rep @ [CheckFailed e]\<rparr>, db)
      | Inr documents \<Rightarrow>
          (let st = foldl (processDocument M collectionName)
                      (rep\<lparr>totalDocuments := length documents\<rparr>, db) documents
           in (fst st, updateConsistencyStatus M collectionName (fst st) statusTime (snd st))))"

text \<open>
  \<open>checkCollection\<close>: the guard on \<open>isRunning\<close>, the flag set, the scan, and the \<open>finally\<close>
  block that stamps the duration and clears the flag. The three times are the clock
  readings at the start, at the status update and in \<open>finally\<close>.
\<close>

definition checkCollection ::
  "'s storage \<Rightarrow> int \<Rightarrow> int \<Rightarrow> int \<Rightarrow> string \<Rightarrow> checker \<times> 's \<Rightarrow> (error + report) \<times> checker \<times> 's" where
  "checkCollection M startTime statusTime endTime collectionName st =
     (let chk = fst st; db = snd st in
      if isRunning chk then (Inl AlreadyInProgress, chk, db)
      else
        (let running = chk\<lparr>isRunning := True\<rparr>;
             rep0 = \<lparr> timestamp = startTime, collection = collectionName, totalDocuments = 0,
                      inconsistenciesFound = 0, repairsApplied = 0, documentsDeleted = 0,
                      errors = [], details = [], duration = 0 \<rparr>;
             res = scan M collectionName statusTime rep0 db
         in (Inr ((fst res)\<lparr>duration := endTime - startTime\<rparr>),
             running\<lparr>isRunning := False, currentCheck := None\<rparr>,
             snd res)))"

section \<open>Facts about property reads and the users rule set\<close>

lemma getProp_plain:
  "key \<notin> set objectPrototypeProps \<Longrightarrow>
     getProp ob key = (case ob key of None \<Rightarrow> JUndefined | Some v \<Rightarrow> v)"
  by (simp add: getProp_def lookupProp_def split: option.splits)

lemma plain_keys:
  "''name'' \<notin> set objectPrototypeProps" "''email'' \<notin> set objectPrototypeProps"
  "''age'' \<notin> set objectPrototypeProps" "''role'' \<notin> set objectPrototypeProps"
  "''isActive'' \<notin> set objectPrototypeProps"
  by (simp_all add: objectPrototypeProps_def)

lemma getProp_update:
  "getProp (ob(k \<mapsto> v)) key = (if key = k then v else getProp ob key)"
  by (simp add: getProp_def lookupProp_def)

lemma setProp_plain: "key \<noteq> ''__proto__'' \<Longrightarrow> setProp ob key v = ob(key \<mapsto> v)"
  by (simp add: setProp_def)

lemma rulesFor_users: "rulesFor ''users'' = Some users"
  by (simp add: rulesFor_def lookupProp_def validationRules_def)

lemma validateDocument_users:
  "validateDocument d ''users'' = Inr (map Issue (validateRules users d))"
  by (simp add: validateDocument_def lookupProp_def validationRules_def)

lemma users_ranges: "map_of (valueRanges users) ''age'' = Some (Fin 0, Fin 150)"
  by (simp add: users_def)

lemma users_defaults:
  "getProp (defaultValues users) ''name'' = JUndefined"
  "getProp (defaultValues users) ''email'' = JStr ''missing@example.com''"
  "getProp (defaultValues users) ''age'' = JNum (Fin 0)"
  "getProp (defaultValues users) ''role'' = JStr ''user''"
  by (simp_all add: users_def getProp_plain plain_keys)

lemma default_email_valid: "emailRegexTest ''missing@example.com''"
  by (simp add: emailRegexTest_def emailChar_def isWhiteSpace_def)

lemma digit_plain:
  "isDigit c \<Longrightarrow> \<not> isWhiteSpace c \<and> c \<noteq> CHR ''-'' \<and> c \<noteq> CHR ''+''"
  by (auto simp: isDigit_def isWhiteSpace_def)

lemma parseInt_signed:
  assumes "\<forall>c \<in> set ws. isWhiteSpace c" and "sg = [] \<or> sg = ''-'' \<or> sg = ''+''"
    and "ds \<noteq> []" and "\<forall>c \<in> set ds. isDigit c"
  shows "parseInt (ws @ sg @ ds @ rest) =
     Fin (of_int ((if sg = ''-'' then - 1 else 1) * int (digitsValue (ds @ takeWhile isDigit rest))))"
proof -
  obtain c cs where ds: "ds = c # cs" using assms(3) by (cases ds) auto
  have c: "isDigit c" using assms(4) ds by simp
  have t: "takeWhile isDigit (ds @ rest) = ds @ takeWhile isDigit rest"
    using assms(4) by (simp add: takeWhile_append2)
  have w: "dropWhile isWhiteSpace (ws @ sg @ ds @ rest) = dropWhile isWhiteSpace (sg @ ds @ rest)"
    using assms(1) by (simp add: dropWhile_append2)
  have s: "\<not> isWhiteSpace CHR ''-''" "\<not> isWhiteSpace CHR ''+''"
    by (simp_all add: isWhiteSpace_def)
  from assms(2) consider "sg = []" | "sg = ''-''" | "sg = ''+''" by blast
  then show ?thesis
  proof cases
    case 1
    then show ?thesis using w digit_plain [OF c] t ds by (simp add: parseInt_def Let_def)
  next
    case 2
    then show ?thesis using w s t ds by (simp add: parseInt_def Let_def)
  next
    case 3
    then show ?thesis using w s t ds by (simp add: parseInt_def Let_def)
  qed
qed

section \<open>Facts about validateDocument\<close>

lemma issue_kinds:
  "i \<in> set (checkRequired r d) \<Longrightarrow> issue i = ''missing_required_field''"
  "i \<in> set (checkTypes r d) \<Longrightarrow> issue i = ''invalid_type''"
  "i \<in> set (checkAllowed r d) \<Longrightarrow> issue i = ''invalid_value''"
  "i \<in> set (checkRanges r d) \<Longrightarrow> issue i = ''out_of_range''"
  "i \<in> set (checkCustom r d) \<Longrightarrow> issue i = ''custom_validation_failed''"
  by (auto simp: checkRequired_def checkTypes_def checkAllowed_def checkRanges_def checkCustom_def
        Let_def split: if_splits)

lemma checkTypes_users_issue:
  assumes "i \<in> set (checkTypes users d)"
  shows "issue i = ''invalid_type''"
    and "field i = ''age'' \<Longrightarrow> getProp d ''age'' = JStr s \<Longrightarrow> parseInt s = NaN"
  using assms by (auto simp: checkTypes_def users_def Let_def split: if_splits)

lemma concat_map_local:
  "i \<in> set (concat (map F xs)) \<Longrightarrow>
   (\<And>x. x \<in> set xs \<Longrightarrow> i \<in> set (F x) \<Longrightarrow> i \<in> set (G x)) \<Longrightarrow>
   i \<in> set (concat (map G xs))"
  by auto

lemma requiredIssue_local:
  assumes "getProp d (field i) = getProp e (field i)" and "i \<in> set (requiredIssue e f)"
  shows "i \<in> set (requiredIssue d f)"
proof -
  have "field i = f" using assms(2) by (auto split: if_splits)
  then have "requiredIssue d f = requiredIssue e f" using assms(1) by simp
  then show ?thesis using assms(2) by simp
qed

lemma typeIssue_local:
  assumes "getProp d (field i) = getProp e (field i)" and "i \<in> set (typeIssue e x)"
  shows "i \<in> set (typeIssue d x)"
proof (cases x)
  case (Pair f t)
  have "field i = f" using assms(2) Pair by (auto simp: Let_def split: if_splits)
  then have "typeIssue d (f, t) = typeIssue e (f, t)" using assms(1) by (simp add: Let_def cong: if_cong)
  then show ?thesis using assms(2) Pair by simp
qed

lemma allowedIssue_local:
  assumes "getProp d (field i) = getProp e (field i)" and "i \<in> set (allowedIssue e x)"
  shows "i \<in> set (allowedIssue d x)"
proof (cases x)
  case (Pair f t)
  have "field i = f" using assms(2) Pair by (auto split: if_splits)
  then have "allowedIssue d (f, t) = allowedIssue e (f, t)" using assms(1) by simp
  then show ?thesis using assms(2) Pair by simp
qed

lemma rangeIssue_local:
  assumes "getProp d (field i) = getProp e (field i)" and "i \<in> set (rangeIssue e x)"
  shows "i \<in> set (rangeIssue d x)"
proof (cases x)
  case (fields f lo hi)
  have "field i = f" using assms(2) fields by (auto split: if_splits)
  then have "rangeIssue d (f, lo, hi) = rangeIssue e (f, lo, hi)" using assms(1) by simp
  then show ?thesis using assms(2) fields by simp
qed

lemma customIssue_local:
  assumes "getProp d (field i) = getProp e (field i)" and "i \<in> set (customIssue e x)"
  shows "i \<in> set (customIssue d x)"
proof (cases x)
  case (Pair f t)
  have "field i = f" using assms(2) Pair by (auto split: if_splits)
  then have "customIssue d (f, t) = customIssue e (f, t)" using assms(1) by simp
  then show ?thesis using assms(2) Pair by simp
qed

text \<open>Whether an issue is reported depends on the document only through the issue's field.\<close>

lemma validateRules_local:
  assumes eq: "getProp d (field i) = getProp e (field i)"
    and mem: "i \<in> set (validateRules r e)"
  shows "i \<in> set (validateRules r d)"
proof -
  from mem consider "i \<in> set (checkRequired r e)" | "i \<in> set (checkTypes r e)"
    | "i \<in> set (checkAllowed r e)" | "i \<in> set (checkRanges r e)" | "i \<in> set (checkCustom r e)"
    by (auto simp: validateRules_def)
  then show ?thesis
  proof cases
    case 1
    then have "i \<in> set (checkRequired r d)" unfolding checkRequired_def
      by (rule concat_map_local) (rule requiredIssue_local [OF eq])
    then show ?thesis by (simp add: validateRules_def)
  next
    case 2
    then have "i \<in> set (checkTypes r d)" unfolding checkTypes_def
      by (rule concat_map_local) (rule typeIssue_local [OF eq])
    then show ?thesis by (simp add: validateRules_def)
  next
    case 3
    then have "i \<in> set (checkAllowed r d)" unfolding checkAllowed_def
      by (rule concat_map_local) (rule allowedIssue_local [OF eq])
    then show ?thesis by (simp add: validateRules_def)
  next
    case 4
    then have "i \<in> set (checkRanges r d)" unfolding checkRanges_def
      by (rule concat_map_local) (rule rangeIssue_local [OF eq])
    then show ?thesis by (simp add: validateRules_def)
  next
    case 5
    then have "i \<in> set (checkCustom r d)" unfolding checkCustom_def
      by (rule concat_map_local) (rule customIssue_local [OF eq])
    then show ?thesis by (simp add: validateRules_def)
  qed
qed

lemma validate_repaired_values:
  "validateRules users [''email'' \<mapsto> JStr ''missing@example.com''] =
     [\<lparr> field = ''name'', issue = ''missing_required_field'', severity = ''high'',
         description = DescMissing ''name'' \<rparr>]"
  "validateRules users [''email'' \<mapsto> JStr ''missing@example.com'', ''role'' \<mapsto> JStr ''user''] =
     [\<lparr> field = ''name'', issue = ''missing_required_field'', severity = ''high'',
         description = DescMissing ''name'' \<rparr>]"
  "validateRules users [''email'' \<mapsto> JStr ''missing@example.com'', ''age'' \<mapsto> JNum (Fin 0)] =
     [\<lparr> field = ''name'', issue = ''missing_required_field'', severity = ''high'',
         description = DescMissing ''name'' \<rparr>]"
  "validateRules users [''email'' \<mapsto> JStr ''missing@example.com'', ''age'' \<mapsto> JNum (Fin 150)] =
     [\<lparr> field = ''name'', issue = ''missing_required_field'', severity = ''high'',
         description = DescMissing ''name'' \<rparr>]"
  by (simp_all add: validateRules_def checkRequired_def checkTypes_def checkAllowed_def
        checkRanges_def checkCustom_def users_def getProp_plain plain_keys default_email_valid)

lemma no_issue_on_repaired_value:
  assumes i: "i \<in> set (validateRules users e)"
  shows "field i = ''email'' \<Longrightarrow> getProp e ''email'' \<noteq> JStr ''missing@example.com''"
    and "field i = ''role'' \<Longrightarrow> getProp e ''role'' \<noteq> JStr ''user''"
    and "field i = ''age'' \<Longrightarrow> getProp e ''age'' \<noteq> JNum (Fin 0)"
    and "field i = ''age'' \<Longrightarrow> getProp e ''age'' \<noteq> JNum (Fin 150)"
proof -
  show "getProp e ''email'' \<noteq> JStr ''missing@example.com''" if f: "field i = ''email''"
  proof
    assume v: "getProp e ''email'' = JStr ''missing@example.com''"
    have "i \<in> set (validateRules users [''email'' \<mapsto> JStr ''missing@example.com''])"
      by (rule validateRules_local [OF _ i]) (simp add: f v getProp_plain plain_keys)
    then show False using f by (simp add: validate_repaired_values)
  qed
  show "getProp e ''role'' \<noteq> JStr ''user''" if f: "field i = ''role''"
  proof
    assume v: "getProp e ''role'' = JStr ''user''"
    have "i \<in> set (validateRules users
             [''email'' \<mapsto> JStr ''missing@example.com'', ''role'' \<mapsto> JStr ''user''])"
      by (rule validateRules_local [OF _ i]) (simp add: f v getProp_plain plain_keys)
    then show False using f by (simp add: validate_repaired_values)
  qed
  show "getProp e ''age'' \<noteq> JNum (Fin 0)" if f: "field i = ''age''"
  proof
    assume v: "getProp e ''age'' = JNum (Fin 0)"
    have "i \<in> set (validateRules users
             [''email'' \<mapsto> JStr ''missing@example.com'', ''age'' \<mapsto> JNum (Fin 0)])"
      by (rule validateRules_local [OF _ i]) (simp add: f v getProp_plain plain_keys)
    then show False using f by (simp add: validate_repaired_values)
  qed
  show "getProp e ''age'' \<noteq> JNum (Fin 150)" if f: "field i = ''age''"
  proof
    assume v: "getProp e ''age'' = JNum (Fin 150)"
    have "i \<in> set (validateRules users
             [''email'' \<mapsto> JStr ''missing@example.com'', ''age'' \<mapsto> JNum (Fin 150)])"
      by (rule validateRules_local [OF _ i]) (simp add: f v getProp_plain plain_keys)
    then show False using f by (simp add: validate_repaired_values)
  qed
qed

lemma users_invalid_value_field:
  assumes "i \<in> set (validateRules users e)" and "issue i = ''invalid_value''"
  shows "field i = ''role''"
proof -
  have "i \<in> set (checkAllowed users e)"
    using assms issue_kinds [of i users e] by (auto simp: validateRules_def)
  then show ?thesis by (auto simp: checkAllowed_def users_def split: if_splits)
qed

section \<open>Facts about the repair loop\<close>

lemma repairIssue_users_total: "\<exists>st'. repairIssue (Some users) doc st i = Inr st'"
  by (simp add: repairIssue_def setProp_def Let_def users_ranges split: jsval.splits)

lemma repairLoop_users_total: "\<exists>st'. repairLoop (Some users) doc st xs = Inr st'"
proof (induction xs arbitrary: st)
  case Nil
  show ?case by simp
next
  case (Cons x xs)
  have "\<exists>st1. repairItem (Some users) doc st x = Inr st1"
    using repairIssue_users_total [of doc st] by (cases x) simp_all
  then obtain st1 where "repairItem (Some users) doc st x = Inr st1" ..
  then show ?case using Cons.IH [of st1] by simp
qed

lemma someIrreparable_rules:
  "someIrreparable (Some r) xs =
     Inr (\<exists>i. Issue i \<in> set xs \<and> severity i = ''high'' \<and> issue i = ''invalid_value''
              \<and> \<not> truthy (getProp (defaultValues r) (field i)))"
proof (induction xs)
  case Nil
  show ?case by simp
next
  case (Cons x xs)
  show ?case
  proof (cases x)
    case (Issue i)
    then show ?thesis using Cons.IH by auto
  next
    case (Message s)
    then show ?thesis using Cons.IH by auto
  qed
qed

lemma users_never_irreparable:
  "someIrreparable (Some users) (map Issue (validateRules users e)) = Inr False"
  using users_invalid_value_field [of _ e]
  by (auto simp: someIrreparable_rules users_defaults)

lemma repairDocument_users_total: "\<exists>r. repairDocument d xs ''users'' = Inr r"
proof -
  obtain st where "repairLoop (Some users) d (d, []) xs = Inr st"
    using repairLoop_users_total by blast
  then show ?thesis
    by (simp add: repairDocument_def rulesFor_users someIrreparable_rules)
qed

lemma repairIssue_frame:
  "repairIssue rules doc st i = Inr st' \<Longrightarrow>
   \<forall>f. f \<notin> rfield ` set (snd st) \<longrightarrow> fst st f = d f \<Longrightarrow>
   \<forall>f. f \<notin> rfield ` set (snd st') \<longrightarrow> fst st' f = d f"
  by (auto simp: repairIssue_def setProp_def Let_def split: if_splits option.splits jsval.splits)

lemma repairLoop_frame:
  "repairLoop rules doc st xs = Inr st' \<Longrightarrow>
   \<forall>f. f \<notin> rfield ` set (snd st) \<longrightarrow> fst st f = d f \<Longrightarrow>
   \<forall>f. f \<notin> rfield ` set (snd st') \<longrightarrow> fst st' f = d f"
proof (induction xs arbitrary: st)
  case Nil
  then show ?case by simp
next
  case (Cons x xs)
  show ?case
  proof (cases x)
    case (Message s)
    then show ?thesis using Cons by simp
  next
    case (Issue i)
    then obtain st1 where s1: "repairIssue rules doc st i = Inr st1"
      and s2: "repairLoop rules doc st1 xs = Inr st'"
      using Cons.prems(1) by (auto split: sum.splits)
    from repairIssue_frame [OF s1 Cons.prems(2)] Cons.IH [OF s2] show ?thesis by blast
  qed
qed

lemma repairLoop_append:
  "repairLoop rules doc st (xs @ ys) =
     (case repairLoop rules doc st xs of
        Inl e \<Rightarrow> Inl e
      | Inr st' \<Rightarrow> repairLoop rules doc st' ys)"
  by (induction xs arbitrary: st) (auto split: sum.splits)

lemma repairLoop_noop:
  "\<forall>x \<in> set xs. repairItem rules d st x = Inr st \<Longrightarrow> repairLoop rules d st xs = Inr st"
  by (induction xs) simp_all

lemma repairIssue_unparsable:
  "issue i = ''invalid_type'' \<Longrightarrow>
   (\<And>s. field i = ''age'' \<Longrightarrow> getProp (fst st) ''age'' = JStr s \<Longrightarrow> parseInt s = NaN) \<Longrightarrow>
   repairIssue rules d st i = Inr st"
  by (auto simp: repairIssue_def setProp_def Let_def split: jsval.splits)

lemma phase_required:
  "repairLoop (Some users) d st (map Issue (checkRequired users d)) =
     Inr (if getProp d ''email'' = JUndefined \<or> getProp d ''email'' = JNull
             \<or> getProp d ''email'' = JStr []
          then ((fst st)(''email'' \<mapsto> JStr ''missing@example.com''),
                snd st @ [\<lparr> rfield = ''email'', action = ''set_default'', oldValue = JUndefined,
                            newValue = JStr ''missing@example.com'' \<rparr>])
          else st)"
  by (simp add: checkRequired_def users_def repairIssue_def setProp_def Let_def getProp_plain plain_keys)

lemma phase_types:
  assumes "getProp (fst st) ''age'' = getProp d ''age''"
  shows "repairLoop (Some users) d st (map Issue (checkTypes users d)) = Inr st"
proof (rule repairLoop_noop, rule ballI)
  fix x assume "x \<in> set (map Issue (checkTypes users d))"
  then obtain i where i: "x = Issue i" "i \<in> set (checkTypes users d)" by auto
  have "repairIssue (Some users) d st i = Inr st"
    using checkTypes_users_issue [OF i(2)] assms by (intro repairIssue_unparsable) auto
  then show "repairItem (Some users) d st x = Inr st" using i(1) by simp
qed

lemma phase_allowed:
  "repairLoop (Some users) d st (map Issue (checkAllowed users d)) =
     Inr (if getProp d ''role'' \<noteq> JUndefined
             \<and> \<not> arrayIncludes [''user'', ''admin'', ''moderator''] (getProp d ''role'')
          then ((fst st)(''role'' \<mapsto> JStr ''user''),
                snd st @ [\<lparr> rfield = ''role'', action = ''set_default'',
                            oldValue = getProp d ''role'', newValue = JStr ''user'' \<rparr>])
          else st)"
  by (simp add: checkAllowed_def users_def repairIssue_def setProp_def Let_def getProp_plain plain_keys)

lemma phase_ranges:
  "getProp (fst st) ''age'' = getProp d ''age'' \<Longrightarrow>
   repairLoop (Some users) d st (map Issue (checkRanges users d)) =
     Inr (if getProp d ''age'' \<noteq> JUndefined \<and> num_lt (rangeNumber (getProp d ''age'')) (Fin 0)
          then ((fst st)(''age'' \<mapsto> JNum (Fin 0)),
                snd st @ [\<lparr> rfield = ''age'', action = ''clamp_to_min'',
                            oldValue = rangeValue (getProp d ''age''), newValue = JNum (Fin 0) \<rparr>])
          else if getProp d ''age'' \<noteq> JUndefined
                  \<and> num_lt (Fin 150) (rangeNumber (getProp d ''age''))
          then ((fst st)(''age'' \<mapsto> JNum (Fin 150)),
                snd st @ [\<lparr> rfield = ''age'', action = ''clamp_to_max'',
                            oldValue = rangeValue (getProp d ''age''), newValue = JNum (Fin 150) \<rparr>])
          else st)"
  by (simp add: checkRanges_def users_def repairIssue_def setProp_def Let_def)

lemma phase_custom:
  "repairLoop (Some users) d st (map Issue (checkCustom users d)) = Inr st"
  by (simp add: checkCustom_def users_def repairIssue_def setProp_def Let_def)

text \<open>
  The repair loop on the issues that validation reports for the users rules: the e-mail
  default, then the role default, then the clamp of the age.
\<close>

lemma pipeline_users:
  fixes d :: obj
  defines "s1 \<equiv>
     (if getProp d ''email'' = JUndefined \<or> getProp d ''email'' = JNull
         \<or> getProp d ''email'' = JStr []
      then (d(''email'' \<mapsto> JStr ''missing@example.com''),
            [\<lparr> rfield = ''email'', action = ''set_default'', oldValue = JUndefined,
                newValue = JStr ''missing@example.com'' \<rparr>])
      else (d, []))"
  defines "s2 \<equiv>
     (if getProp d ''role'' \<noteq> JUndefined
         \<and> \<not> arrayIncludes [''user'', ''admin'', ''moderator''] (getProp d ''role'')
      then ((fst s1)(''role'' \<mapsto> JStr ''user''),
            snd s1 @ [\<lparr> rfield = ''role'', action = ''set_default'',
                        oldValue = getProp d ''role'', newValue = JStr ''user'' \<rparr>])
      else s1)"
  defines "s3 \<equiv>
     (if getProp d ''age'' \<noteq> JUndefined \<and> num_lt (rangeNumber (getProp d ''age'')) (Fin 0)
      then ((fst s2)(''age'' \<mapsto> JNum (Fin 0)),
            snd s2 @ [\<lparr> rfield = ''age'', action = ''clamp_to_min'',
                        oldValue = rangeValue (getProp d ''age''), newValue = JNum (Fin 0) \<rparr>])
      else if getProp d ''age'' \<noteq> JUndefined
              \<and> num_lt (Fin 150) (rangeNumber (getProp d ''age''))
      then ((fst s2)(''age'' \<mapsto> JNum (Fin 150)),
            snd s2 @ [\<lparr> rfield = ''age'', action = ''clamp_to_max'',
                        oldValue = rangeValue (getProp d ''age''), newValue = JNum (Fin 150) \<rparr>])
      else s2)"
  shows "repairLoop (Some users) d (d, []) (map Issue (validateRules users d)) = Inr s3"
proof -
  have r: "repairLoop (Some users) d (d, []) (map Issue (checkRequired users d)) = Inr s1"
    unfolding s1_def by (simp add: phase_required)
  have a1: "getProp (fst s1) ''age'' = getProp d ''age''"
    unfolding s1_def by (simp add: getProp_update)
  have t: "repairLoop (Some users) d s1 (map Issue (checkTypes users d)) = Inr s1"
    using a1 by (rule phase_types)
  have a: "repairLoop (Some users) d s1 (map Issue (checkAllowed users d)) = Inr s2"
    unfolding s2_def by (simp add: phase_allowed)
  have a2: "getProp (fst s2) ''age'' = getProp d ''age''"
    unfolding s2_def using a1 by (simp add: getProp_update)
  have g: "repairLoop (Some users) d s2 (map Issue (checkRanges users d)) = Inr s3"
    unfolding s3_def using a2 by (simp add: phase_ranges)
  have c: "repairLoop (Some users) d s3 (map Issue (checkCustom users d)) = Inr s3"
    by (rule phase_custom)
  show ?thesis
    by (simp add: validateRules_def repairLoop_append r t a g c)
qed

section \<open>The status projection\<close>

text \<open>
  C3. The status computed from a report has \<open>isConsistent\<close> exactly when the report found
  no inconsistency or found as many as it repaired and deleted together, and
  \<open>allReplicasConsistent\<close> is the same flag.
\<close>

theorem status_projection:
  "isConsistent (statusUpdate c rep now)
     = (inconsistenciesFound rep = 0
        \<or> inconsistenciesFound rep = repairsApplied rep + documentsDeleted rep)
   \<and> allReplicasConsistent (statusUpdate c rep now) = isConsistent (statusUpdate c rep now)"
  by (simp add: statusUpdate_def Let_def)

section \<open>Validation\<close>

text \<open>
  A collection name that is neither \<open>users\<close> nor a member of \<open>Object.prototype\<close> gives the
  one bare message.
\<close>

lemma validateDocument_no_rules:
  "c \<noteq> ''users'' \<Longrightarrow> c \<notin> set objectPrototypeProps \<Longrightarrow>
   validateDocument d c = Inr [Message (''No validation rules found for collection: '' @ c)]"
  by (simp add: validateDocument_def lookupProp_def validationRules_def)

text \<open>
  C5. Claimed: \<open>validateDocument\<close> never raises, and a collection name without a rule set
  gives one synthetic issue. Under the name \<open>constructor\<close>, which has no rule set,
  \<open>validationRules[collection]\<close> is the inherited function, the guard \<open>!rules\<close> does not
  fire, and the call throws a TypeError, whatever the document.
\<close>

theorem validateDocument_inherited_name_throws:
  "validateDocument d ''constructor'' = Inl TypeError"
  by (simp add: validateDocument_def lookupProp_def validationRules_def objectPrototypeProps_def)

text \<open>
  C10. When the \<open>age\<close> of a document is a string made of white space, an optional sign,
  at least one decimal digit and then anything at all, \<open>parseInt\<close> gives the number that
  the leading digits spell, and \<open>validateDocument\<close> reports no \<open>invalid_type\<close> issue on
  \<open>age\<close>.
\<close>

theorem numeric_prefix_accepted:
  assumes "\<forall>c \<in> set ws. isWhiteSpace c" and "sg = [] \<or> sg = ''-'' \<or> sg = ''+''"
    and "ds \<noteq> []" and "\<forall>c \<in> set ds. isDigit c"
    and "d ''age'' = Some (JStr (ws @ sg @ ds @ rest))"
  shows "parseInt (ws @ sg @ ds @ rest) =
      Fin (of_int ((if sg = ''-'' then - 1 else 1) * int (digitsValue (ds @ takeWhile isDigit rest))))
    \<and> (\<exists>is. validateDocument d ''users'' = Inr is
          \<and> (\<forall>i. Issue i \<in> set is \<longrightarrow> \<not> (field i = ''age'' \<and> issue i = ''invalid_type'')))"
proof -
  have p: "parseInt (ws @ sg @ ds @ rest) =
      Fin (of_int ((if sg = ''-'' then - 1 else 1) * int (digitsValue (ds @ takeWhile isDigit rest))))"
    using assms(1-4) by (rule parseInt_signed)
  have g: "getProp d ''age'' = JStr (ws @ sg @ ds @ rest)"
    using assms(5) by (simp add: getProp_plain plain_keys)
  have "\<not> (field i = ''age'' \<and> issue i = ''invalid_type'')" if "i \<in> set (validateRules users d)" for i
  proof
    assume a: "field i = ''age'' \<and> issue i = ''invalid_type''"
    then have "i \<in> set (checkTypes users d)"
      using that issue_kinds [of i users d] by (auto simp: validateRules_def)
    from checkTypes_users_issue(2) [OF this _ g] a
    have "parseInt (ws @ sg @ ds @ rest) = NaN" by simp
    then show False using p by simp
  qed
  then show ?thesis using p by (auto simp: validateDocument_users)
qed

theorem numeric_prefix_accepted_witness:
  "parseInt ''42abc'' = Fin 42
   \<and> (\<exists>is. validateDocument [''age'' \<mapsto> JStr ''42abc''] ''users'' = Inr is
         \<and> (\<forall>i. Issue i \<in> set is \<longrightarrow> \<not> (field i = ''age'' \<and> issue i = ''invalid_type'')))"
  using numeric_prefix_accepted [of "[]" "[]" "''42''" "[''age'' \<mapsto> JStr ''42abc'']" "''abc''"]
  by (simp add: isDigit_def digitsValue_def)

text \<open>
  The conversion itself works when \<open>repairDocument\<close> is handed an \<open>invalid_type\<close> issue for
  an \<open>age\<close> that parses, which \<open>validateDocument\<close> never reports.
\<close>

lemma type_conversion_when_flagged:
  "getProp rd ''age'' = JStr s \<Longrightarrow> parseInt s \<noteq> NaN \<Longrightarrow>
   field i = ''age'' \<Longrightarrow> issue i = ''invalid_type'' \<Longrightarrow>
   repairIssue rules d (rd, reps) i =
     Inr (rd(''age'' \<mapsto> JNum (parseInt s)),
          reps @ [\<lparr> rfield = ''age'', action = ''type_conversion'', oldValue = JStr s,
                    newValue = JNum (parseInt s) \<rparr>])"
  by (simp add: repairIssue_def setProp_def Let_def)

text \<open>
  C2. Claimed: a number field holding a numeric string gives no \<open>invalid_type\<close> issue and
  yet a \<open>type_conversion\<close> repair. On the sample document with \<open>age: '42'\<close> validation
  reports no issue at all, and \<open>repairDocument\<close> on those issues records no repair and
  leaves the string in place.
\<close>

theorem numeric_string_not_converted:
  "validateDocument [''name'' \<mapsto> JStr ''Charlie Brown'', ''email'' \<mapsto> JStr ''charlie@example.com'',
        ''age'' \<mapsto> JStr ''42'', ''role'' \<mapsto> JStr ''user'', ''isActive'' \<mapsto> JBool True] ''users''
     = Inr []
   \<and> repairDocument [''name'' \<mapsto> JStr ''Charlie Brown'', ''email'' \<mapsto> JStr ''charlie@example.com'',
        ''age'' \<mapsto> JStr ''42'', ''role'' \<mapsto> JStr ''user'', ''isActive'' \<mapsto> JBool True] [] ''users''
     = Inr \<lparr> document = [''name'' \<mapsto> JStr ''Charlie Brown'', ''email'' \<mapsto> JStr ''charlie@example.com'',
               ''age'' \<mapsto> JStr ''42'', ''role'' \<mapsto> JStr ''user'', ''isActive'' \<mapsto> JBool True],
             repairs = [], shouldDelete = False \<rparr>"
  by (simp add: validateDocument_users validateRules_def checkRequired_def checkTypes_def
        checkAllowed_def checkRanges_def checkCustom_def users_def getProp_plain plain_keys
        parseInt_def isWhiteSpace_def isDigit_def digitsValue_def emailRegexTest_def emailChar_def
        repairDocument_def)

section \<open>Repair\<close>

text \<open>
  What \<open>shouldDelete\<close> is on the users rules: some issue is high, of kind \<open>invalid_value\<close>,
  and the default read for its field is falsy.
\<close>

lemma shouldDelete_users:
  "repairDocument d xs ''users'' = Inr r \<Longrightarrow>
   shouldDelete r =
     (\<exists>i. Issue i \<in> set xs \<and> severity i = ''high'' \<and> issue i = ''invalid_value''
          \<and> \<not> truthy (getProp (defaultValues users) (field i)))"
  by (auto simp: repairDocument_def rulesFor_users someIrreparable_rules split: sum.splits)

text \<open>
  C1. Claimed: \<open>shouldDelete\<close> holds exactly when some issue is high, of kind
  \<open>invalid_value\<close>, and its field has no configured default. For a high \<open>invalid_value\<close>
  issue on \<open>age\<close>, whose configured default is \<open>0\<close>, the code returns \<open>shouldDelete = true\<close>:
  it tests the default for truthiness.
\<close>

theorem shouldDelete_with_zero_default:
  "defaultValues users ''age'' = Some (JNum (Fin 0))
   \<and> repairDocument [''age'' \<mapsto> JNum (Fin 7)]
        [Issue \<lparr> field = ''age'', issue = ''invalid_value'', severity = ''high'',
                  description = DescInvalidValue ''age'' (JNum (Fin 7)) [] \<rparr>] ''users''
       = Inr \<lparr> document = [''age'' \<mapsto> JNum (Fin 7)], repairs = [], shouldDelete = True \<rparr>"
  by (simp add: repairDocument_def rulesFor_users repairIssue_def setProp_def users_defaults)
     (simp add: users_def)

text \<open>
  What the code does on a \<open>missing_required_field\<close> issue: the default is set when it is
  truthy, and otherwise the state is left as it was; such an issue never counts for
  deletion.
\<close>

lemma repairIssue_missing_required_field:
  "issue i = ''missing_required_field'' \<Longrightarrow>
   repairIssue (Some users) d (rd, reps) i =
     Inr (if truthy (getProp (defaultValues users) (field i))
          then (setProp rd (field i) (getProp (defaultValues users) (field i)),
                reps @ [\<lparr> rfield = field i, action = ''set_default'', oldValue = JUndefined,
                          newValue = getProp (defaultValues users) (field i) \<rparr>])
          else (rd, reps))
   \<and> irreparable (Some users) (Issue i) = Inr False"
  by (simp add: repairIssue_def setProp_def Let_def)

text \<open>
  C6. Claimed: a \<open>missing_required_field\<close> issue on a field with a configured default sets
  the field to it and records \<open>set_default\<close>. For such an issue on \<open>age\<close>, whose configured
  default is \<open>0\<close>, the code sets nothing and records nothing: it tests the default for
  truthiness.
\<close>

theorem missing_age_not_defaulted:
  "defaultValues users ''age'' = Some (JNum (Fin 0))
   \<and> repairDocument [''name'' \<mapsto> JStr ''Luke Cage'']
        [Issue \<lparr> field = ''age'', issue = ''missing_required_field'', severity = ''high'',
                  description = DescMissing ''age'' \<rparr>] ''users''
       = Inr \<lparr> document = [''name'' \<mapsto> JStr ''Luke Cage''], repairs = [], shouldDelete = False \<rparr>"
  by (simp add: repairDocument_def rulesFor_users repairIssue_def setProp_def users_defaults)
     (simp add: users_def)

text \<open>
  C8. \<open>repairDocument\<close> on the users rules always returns; whatever collection it is called
  for, its result agrees with the input document on every field that no recorded repair
  names; and on an empty issue list it returns the input document, no repair and no
  deletion.
\<close>

theorem repair_frame:
  "(\<exists>r. repairDocument d xs ''users'' = Inr r)
   \<and> (\<forall>r f. repairDocument d xs c = Inr r \<longrightarrow> f \<notin> rfield ` set (repairs r)
          \<longrightarrow> document r f = d f)
   \<and> repairDocument d [] c = Inr \<lparr> document = d, repairs = [], shouldDelete = False \<rparr>"
proof (intro conjI allI impI)
  show "\<exists>r. repairDocument d xs ''users'' = Inr r"
    by (rule repairDocument_users_total)
next
  fix r f
  assume res: "repairDocument d xs c = Inr r" and f: "f \<notin> rfield ` set (repairs r)"
  from res obtain st where loop: "repairLoop (rulesFor c) d (d, []) xs = Inr st"
    and r: "document r = fst st" "repairs r = snd st"
    by (auto simp: repairDocument_def split: sum.splits)
  have "\<forall>f. f \<notin> rfield ` set (snd st) \<longrightarrow> fst st f = d f"
    by (rule repairLoop_frame [OF loop]) simp
  then show "document r f = d f" using f r by simp
next
  show "repairDocument d [] c = Inr \<lparr> document = d, repairs = [], shouldDelete = False \<rparr>"
    by (simp add: repairDocument_def)
qed

theorem repair_frame_witness:
  "repairDocument [''name'' \<mapsto> JStr ''Bob'', ''age'' \<mapsto> JStr ''42'']
     [Issue \<lparr> field = ''email'', issue = ''missing_required_field'', severity = ''high'',
               description = DescMissing ''email'' \<rparr>] ''users''
     = Inr \<lparr> document = [''name'' \<mapsto> JStr ''Bob'', ''age'' \<mapsto> JStr ''42'',
                          ''email'' \<mapsto> JStr ''missing@example.com''],
             repairs = [\<lparr> rfield = ''email'', action = ''set_default'', oldValue = JUndefined,
                          newValue = JStr ''missing@example.com'' \<rparr>],
             shouldDelete = False \<rparr>
   \<and> ''name'' \<notin> rfield ` set [\<lparr> rfield = ''email'', action = ''set_default'', oldValue = JUndefined,
                          newValue = JStr ''missing@example.com'' \<rparr>]
   \<and> [''name'' \<mapsto> JStr ''Bob'', ''age'' \<mapsto> JStr ''42'', ''email'' \<mapsto> JStr ''missing@example.com'']
        ''name'' = [''name'' \<mapsto> JStr ''Bob'', ''age'' \<mapsto> JStr ''42''] ''name''"
  using repair_frame [of "[''name'' \<mapsto> JStr ''Bob'', ''age'' \<mapsto> JStr ''42'']"
     "[Issue \<lparr> field = ''email'', issue = ''missing_required_field'', severity = ''high'',
               description = DescMissing ''email'' \<rparr>]" "''users''"]
  by (simp add: repairDocument_def rulesFor_users repairIssue_def setProp_def Let_def users_defaults)

text \<open>
  C7. On the users rules, with a document whose \<open>age\<close> is present: when its value is below
  0, validation followed by repair sets \<open>age\<close> to exactly 0 and records \<open>clamp_to_min\<close>;
  when it is above 150, \<open>age\<close> becomes exactly 150 with \<open>clamp_to_max\<close>; and when it equals
  0 or 150, validation reports no \<open>out_of_range\<close> issue.
\<close>

theorem range_clamp:
  assumes "d ''age'' = Some v"
  shows "\<exists>is r. validateDocument d ''users'' = Inr is \<and> repairDocument d is ''users'' = Inr r
    \<and> (num_lt (rangeNumber v) (Fin 0) \<longrightarrow>
          document r ''age'' = Some (JNum (Fin 0))
          \<and> \<lparr> rfield = ''age'', action = ''clamp_to_min'', oldValue = rangeValue v,
                newValue = JNum (Fin 0) \<rparr> \<in> set (repairs r))
    \<and> (num_lt (Fin 150) (rangeNumber v) \<longrightarrow>
          document r ''age'' = Some (JNum (Fin 150))
          \<and> \<lparr> rfield = ''age'', action = ''clamp_to_max'', oldValue = rangeValue v,
                newValue = JNum (Fin 150) \<rparr> \<in> set (repairs r))
    \<and> (rangeNumber v = Fin 0 \<or> rangeNumber v = Fin 150 \<longrightarrow>
          (\<forall>i. Issue i \<in> set is \<longrightarrow> issue i \<noteq> ''out_of_range''))"
proof -
  have g: "getProp d ''age'' = v"
    using assms by (simp add: getProp_plain plain_keys)
  obtain st where loop: "repairLoop (Some users) d (d, []) (map Issue (validateRules users d)) = Inr st"
    using repairLoop_users_total by blast
  note st = loop [unfolded pipeline_users sum.inject, symmetric]
  have r: "repairDocument d (map Issue (validateRules users d)) ''users''
      = Inr \<lparr> document = fst st, repairs = snd st, shouldDelete = False \<rparr>"
    by (simp add: repairDocument_def rulesFor_users loop users_never_irreparable)
  have u: "v \<noteq> JUndefined" if "num_lt (rangeNumber v) (Fin 0) \<or> num_lt (Fin 150) (rangeNumber v)"
    using that by auto
  have lo: "fst st ''age'' = Some (JNum (Fin 0))
      \<and> \<lparr> rfield = ''age'', action = ''clamp_to_min'', oldValue = rangeValue v,
            newValue = JNum (Fin 0) \<rparr> \<in> set (snd st)"
    if "num_lt (rangeNumber v) (Fin 0)"
    unfolding st using that u g by simp
  have n: "\<not> num_lt (rangeNumber v) (Fin 0)" if "num_lt (Fin 150) (rangeNumber v)"
    using that by (cases "rangeNumber v") auto
  have hi: "fst st ''age'' = Some (JNum (Fin 150))
      \<and> \<lparr> rfield = ''age'', action = ''clamp_to_max'', oldValue = rangeValue v,
            newValue = JNum (Fin 150) \<rparr> \<in> set (snd st)"
    if "num_lt (Fin 150) (rangeNumber v)"
    unfolding st using that u g n by simp
  have b: "issue i \<noteq> ''out_of_range''"
    if "rangeNumber v = Fin 0 \<or> rangeNumber v = Fin 150" and i: "i \<in> set (validateRules users d)" for i
  proof
    assume "issue i = ''out_of_range''"
    then have "i \<in> set (checkRanges users d)"
      using i issue_kinds [of i users d] by (auto simp: validateRules_def)
    then show False using that(1) g by (auto simp: checkRanges_def users_def)
  qed
  show ?thesis
    using r lo hi b
    by (intro exI [of _ "map Issue (validateRules users d)"]
        exI [of _ "\<lparr> document = fst st, repairs = snd st, shouldDelete = False \<rparr>"])
       (auto simp: validateDocument_users)
qed

theorem range_clamp_witness:
  "(\<exists>is r. validateDocument [''age'' \<mapsto> JNum (Fin (- 5))] ''users'' = Inr is
       \<and> repairDocument [''age'' \<mapsto> JNum (Fin (- 5))] is ''users'' = Inr r
       \<and> document r ''age'' = Some (JNum (Fin 0))
       \<and> \<lparr> rfield = ''age'', action = ''clamp_to_min'', oldValue = JNum (Fin (- 5)),
             newValue = JNum (Fin 0) \<rparr> \<in> set (repairs r))
   \<and> (\<exists>is r. validateDocument [''age'' \<mapsto> JStr ''200''] ''users'' = Inr is
       \<and> repairDocument [''age'' \<mapsto> JStr ''200''] is ''users'' = Inr r
       \<and> document r ''age'' = Some (JNum (Fin 150))
       \<and> \<lparr> rfield = ''age'', action = ''clamp_to_max'', oldValue = JNum (Fin 200),
             newValue = JNum (Fin 150) \<rparr> \<in> set (repairs r))
   \<and> (\<exists>is r. validateDocument [''age'' \<mapsto> JNum (Fin 150)] ''users'' = Inr is
       \<and> repairDocument [''age'' \<mapsto> JNum (Fin 150)] is ''users'' = Inr r
       \<and> (\<forall>i. Issue i \<in> set is \<longrightarrow> issue i \<noteq> ''out_of_range''))"
proof -
  have p: "parseInt ''200'' = Fin 200"
    by (simp add: parseInt_def isWhiteSpace_def isDigit_def digitsValue_def)
  show ?thesis
    using range_clamp [of "[''age'' \<mapsto> JNum (Fin (- 5))]" "JNum (Fin (- 5))"]
      range_clamp [of "[''age'' \<mapsto> JStr ''200'']" "JStr ''200''"]
      range_clamp [of "[''age'' \<mapsto> JNum (Fin 150)]" "JNum (Fin 150)"]
    by (simp add: p)
qed

text \<open>
  C9. On the users rules, validating a document, repairing it on those issues and
  validating the repaired document gives only issues that the first validation already
  reported, and repairing the repaired document on them changes nothing: no repair, no
  deletion, the same document.
\<close>

theorem repair_fixed_point:
  "\<exists>is r is'.
      validateDocument d ''users'' = Inr is
    \<and> repairDocument d is ''users'' = Inr r
    \<and> validateDocument (document r) ''users'' = Inr is'
    \<and> set is' \<subseteq> set is
    \<and> repairDocument (document r) is' ''users''
        = Inr \<lparr> document = document r, repairs = [], shouldDelete = False \<rparr>"
proof -
  define eM where "eM \<longleftrightarrow> getProp d ''email'' = JUndefined \<or> getProp d ''email'' = JNull
      \<or> getProp d ''email'' = JStr []"
  define rB where "rB \<longleftrightarrow> getProp d ''role'' \<noteq> JUndefined
      \<and> \<not> arrayIncludes [''user'', ''admin'', ''moderator''] (getProp d ''role'')"
  define aL where "aL \<longleftrightarrow> getProp d ''age'' \<noteq> JUndefined
      \<and> num_lt (rangeNumber (getProp d ''age'')) (Fin 0)"
  define aH where "aH \<longleftrightarrow> getProp d ''age'' \<noteq> JUndefined
      \<and> num_lt (Fin 150) (rangeNumber (getProp d ''age''))"
  obtain st where loop: "repairLoop (Some users) d (d, []) (map Issue (validateRules users d)) = Inr st"
    using repairLoop_users_total by blast
  define d' where "d' = fst st"
  have gp: "getProp d' f =
      (if f = ''age'' \<and> aL then JNum (Fin 0)
       else if f = ''age'' \<and> aH then JNum (Fin 150)
       else if f = ''role'' \<and> rB then JStr ''user''
       else if f = ''email'' \<and> eM then JStr ''missing@example.com''
       else getProp d f)" for f
    unfolding d'_def eM_def rB_def aL_def aH_def
      loop [unfolded pipeline_users sum.inject, symmetric]
    by (simp add: getProp_update)
  have email': "\<not> (getProp d' ''email'' = JUndefined \<or> getProp d' ''email'' = JNull
      \<or> getProp d' ''email'' = JStr [])"
    by (auto simp: gp eM_def)
  have role': "\<not> (getProp d' ''role'' \<noteq> JUndefined
      \<and> \<not> arrayIncludes [''user'', ''admin'', ''moderator''] (getProp d' ''role''))"
    by (auto simp: gp rB_def)
  have age': "\<not> (getProp d' ''age'' \<noteq> JUndefined
      \<and> num_lt (rangeNumber (getProp d' ''age'')) (Fin 0))"
    "\<not> (getProp d' ''age'' \<noteq> JUndefined
      \<and> num_lt (Fin 150) (rangeNumber (getProp d' ''age'')))"
    by (auto simp: gp aL_def aH_def)
  have loop': "repairLoop (Some users) d' (d', []) (map Issue (validateRules users d')) = Inr (d', [])"
    using email' role' age' by (simp add: pipeline_users)
  have sub: "i \<in> set (validateRules users d)" if i: "i \<in> set (validateRules users d')" for i
  proof (cases "getProp d (field i) = getProp d' (field i)")
    case True
    then show ?thesis using i by (rule validateRules_local)
  next
    case False
    then consider "field i = ''age''" "aL" | "field i = ''age''" "\<not> aL" "aH"
      | "field i = ''role''" "rB" | "field i = ''email''" "eM"
      by (auto simp: gp split: if_splits)
    then show ?thesis
    proof cases
      case 1
      then show ?thesis using no_issue_on_repaired_value(3) [OF i] by (simp add: gp)
    next
      case 2
      then show ?thesis using no_issue_on_repaired_value(4) [OF i] by (simp add: gp)
    next
      case 3
      then show ?thesis using no_issue_on_repaired_value(2) [OF i] by (simp add: gp)
    next
      case 4
      then show ?thesis using no_issue_on_repaired_value(1) [OF i] by (simp add: gp)
    qed
  qed
  have r1: "repairDocument d (map Issue (validateRules users d)) ''users''
      = Inr \<lparr> document = d', repairs = snd st, shouldDelete = False \<rparr>"
    by (simp add: repairDocument_def rulesFor_users loop users_never_irreparable d'_def)
  have r2: "repairDocument d' (map Issue (validateRules users d')) ''users''
      = Inr \<lparr> document = d', repairs = [], shouldDelete = False \<rparr>"
    by (simp add: repairDocument_def rulesFor_users loop' users_never_irreparable)
  have s: "set (map Issue (validateRules users d')) \<subseteq> set (map Issue (validateRules users d))"
    using sub by auto
  show ?thesis
    using r1 r2 s by (intro exI [of _ "map Issue (validateRules users d)"]
        exI [of _ "\<lparr> document = d', repairs = snd st, shouldDelete = False \<rparr>"]
        exI [of _ "map Issue (validateRules users d')"]) (simp add: validateDocument_users)
qed

section \<open>The scan\<close>

lemma processDocument_totalDocuments:
  "totalDocuments (fst (processDocument M c st d)) = totalDocuments (fst st)"
  by (simp add: processDocument_def Let_def split: sum.splits prod.splits option.splits)

lemma scanLoop_totalDocuments:
  "totalDocuments (fst (foldl (processDocument M c) st ds)) = totalDocuments (fst st)"
  by (induction ds arbitrary: st) (simp_all add: processDocument_totalDocuments)

text \<open>
  C4. \<open>checkCollection\<close> rejects with the already-in-progress error exactly when the flag
  is set at entry, and then it touches neither the checker nor the storage. Otherwise,
  whatever the storage does (listing fails, a delete or an update fails, the status upsert
  fails, \<open>validateDocument\<close> or \<open>repairDocument\<close> throws), it returns a report for the
  collection with the duration stamped and leaves the flag cleared; the report holds the
  one error when listing failed and counts every listed document otherwise.
\<close>

theorem checkCollection_flag:
  "(fst (checkCollection M t0 t1 t2 c (chk, db)) = Inl AlreadyInProgress) = isRunning chk
   \<and> (isRunning chk \<longrightarrow> snd (checkCollection M t0 t1 t2 c (chk, db)) = (chk, db))
   \<and> (\<not> isRunning chk \<longrightarrow>
        (\<exists>rep. fst (checkCollection M t0 t1 t2 c (chk, db)) = Inr rep
           \<and> collection rep = c \<and> duration rep = t2 - t0
           \<and> (case find M db of
                 Inl e \<Rightarrow> errors rep = [CheckFailed e] \<and> totalDocuments rep = 0
               | Inr documents \<Rightarrow> totalDocuments rep = length documents))
        \<and> \<not> isRunning (fst (snd (checkCollection M t0 t1 t2 c (chk, db)))))"
proof (cases "isRunning chk")
  case True
  then show ?thesis by (simp add: checkCollection_def)
next
  case False
  define rep0 where "rep0 = \<lparr> timestamp = t0, collection = c, totalDocuments = 0,
      inconsistenciesFound = 0, repairsApplied = 0, documentsDeleted = 0,
      errors = [], details = [], duration = 0 \<rparr>"
  have coll: "collection (fst (processDocument M c st d)) = collection (fst st)" for st d
    by (simp add: processDocument_def Let_def split: sum.splits prod.splits option.splits)
  have colls: "collection (fst (foldl (processDocument M c) st ds)) = collection (fst st)" for st ds
    by (induction ds arbitrary: st) (simp_all add: coll)
  have s: "collection (fst (scan M c t1 rep0 db)) = c
      \<and> (case find M db of
            Inl e \<Rightarrow> errors (fst (scan M c t1 rep0 db)) = [CheckFailed e]
                     \<and> totalDocuments (fst (scan M c t1 rep0 db)) = 0
          | Inr documents \<Rightarrow> totalDocuments (fst (scan M c t1 rep0 db)) = length documents)"
    by (simp add: scan_def Let_def rep0_def colls scanLoop_totalDocuments split: sum.splits)
  show ?thesis
    using False s unfolding rep0_def by (simp add: checkCollection_def Let_def split: sum.splits)
qed

theorem checkCollection_flag_witness:
  "fst (checkCollection
      \<lparr> find = (\<lambda>db. Inl (StorageError ''connection lost'')),
        findByIdAndDelete = (\<lambda>k db. (None, db)),
        findByIdAndUpdate = (\<lambda>k doc db. (None, db)),
        findOneAndUpdate = (\<lambda>k s db. (None, db)) \<rparr>
      0 1 2 ''users'' (\<lparr> isRunning = True, currentCheck = None \<rparr>, ()))
     = Inl AlreadyInProgress
   \<and> (\<exists>rep. fst (checkCollection
      \<lparr> find = (\<lambda>db. Inl (StorageError ''connection lost'')),
        findByIdAndDelete = (\<lambda>k db. (None, db)),
        findByIdAndUpdate = (\<lambda>k doc db. (None, db)),
        findOneAndUpdate = (\<lambda>k s db. (None, db)) \<rparr>
      0 1 2 ''users'' (\<lparr> isRunning = False, currentCheck = None \<rparr>, ())) = Inr rep
      \<and> errors rep = [CheckFailed (StorageError ''connection lost'')])
   \<and> \<not> isRunning (fst (snd (checkCollection
      \<lparr> find = (\<lambda>db. Inl (StorageError ''connection lost'')),
        findByIdAndDelete = (\<lambda>k db. (None, db)),
        findByIdAndUpdate = (\<lambda>k doc db. (None, db)),
        findOneAndUpdate = (\<lambda>k s db. (None, db)) \<rparr>
      0 1 2 ''users'' (\<lparr> isRunning = False, currentCheck = None \<rparr>, ()))))
   \<and> (\<exists>rep. fst (checkCollection
      \<lparr> find = (\<lambda>db. Inr [(''65a1'', [''name'' \<mapsto> JStr ''Bob''])]),
        findByIdAndDelete = (\<lambda>k db. (None, db)),
        findByIdAndUpdate = (\<lambda>k doc db. (Some (StorageError ''write failed''), db)),
        findOneAndUpdate = (\<lambda>k s db. (None, db)) \<rparr>
      0 1 2 ''users'' (\<lparr> isRunning = False, currentCheck = None \<rparr>, ())) = Inr rep
      \<and> totalDocuments rep = 1)"
  using checkCollection_flag [of
      "\<lparr> find = (\<lambda>db. Inl (StorageError ''connection lost'')),
        findByIdAndDelete = (\<lambda>k db. (None, db)),
        findByIdAndUpdate = (\<lambda>k doc db. (None, db)),
        findOneAndUpdate = (\<lambda>k s db. (None, db)) \<rparr>"
      0 1 2 "''users''" "\<lparr> isRunning = True, currentCheck = None \<rparr>" "()"]
    checkCollection_flag [of
      "\<lparr> find = (\<lambda>db. Inl (StorageError ''connection lost'')),
        findByIdAndDelete = (\<lambda>k db. (None, db)),
        findByIdAndUpdate = (\<lambda>k doc db. (None, db)),
        findOneAndUpdate = (\<lambda>k s db. (None, db)) \<rparr>"
      0 1 2 "''users''" "\<lparr> isRunning = False, currentCheck = None \<rparr>" "()"]
    checkCollection_flag [of
      "\<lparr> find = (\<lambda>db. Inr [(''65a1'', [''name'' \<mapsto> JStr ''Bob''])]),
        findByIdAndDelete = (\<lambda>k db. (None, db)),
        findByIdAndUpdate = (\<lambda>k doc db. (Some (StorageError ''write failed''), db)),
        findOneAndUpdate = (\<lambda>k s db. (None, db)) \<rparr>"
      0 1 2 "''users''" "\<lparr> isRunning = False, currentCheck = None \<rparr>" "()"]
  by auto

text \<open>
  A failed write of one document becomes an entry of the report's errors; the counters
  that were updated before it stay, and the scan goes on to the status update.
\<close>

lemma failed_update_is_recorded:
  "fst (checkCollection
      \<lparr> find = (\<lambda>db. Inr [(''65a1'', [''name'' \<mapsto> JStr ''Bob''])]),
        findByIdAndDelete = (\<lambda>k db. (None, db)),
        findByIdAndUpdate = (\<lambda>k doc db. (Some (StorageError ''write failed''), db)),
        findOneAndUpdate = (\<lambda>k s db. (None, db)) \<rparr>
      0 1 2 ''users'' (\<lparr> isRunning = False, currentCheck = None \<rparr>, ()))
   = Inr \<lparr> timestamp = 0, collection = ''users'', totalDocuments = 1,
           inconsistenciesFound = 1, repairsApplied = 0, documentsDeleted = 0,
           errors = [DocumentError ''65a1'' (StorageError ''write failed'')], details = [],
           duration = 2 \<rparr>"
  by (simp add: checkCollection_def scan_def processDocument_def Let_def validateDocument_users
        validateRules_def checkRequired_def checkTypes_def checkAllowed_def checkRanges_def
        checkCustom_def users_def getProp_plain plain_keys repairDocument_def rulesFor_users
        repairIssue_def setProp_def updateConsistencyStatus_def)

end
